theory Spec2Isabelle
  imports Complex_Main
begin

section \<open>JavaScript values\<close>

text \<open>
  The client is untyped JavaScript: a decoded response body, the value stored by
  \<^verbatim>\<open>setError\<close> and a thrown value can each be any value. \<open>JNum\<close> holds the
  finite numbers (\<open>-0\<close> is identified with \<open>0\<close>), \<open>JNaN\<close> is not-a-number. An
  object is the list of its own data properties; the first binding of a key is the
  property's value.
\<close>

datatype jsval =
    JUndefined
  | JNull
  | JBool bool
  | JNum real
  | JNaN
  | JStr string
  | JArr "jsval list"
  | JObj "(string \<times> jsval) list"

text \<open>How a piece of code ends: with a value, or with a thrown value.\<close>

datatype 'a completion = Returned 'a | Threw jsval

text \<open>ToBoolean, as used by \<^verbatim>\<open>if (x)\<close> and \<^verbatim>\<open>x || y\<close>.\<close>

fun truthy :: "jsval \<Rightarrow> bool" where
  "truthy JUndefined = False"
| "truthy JNull = False"
| "truthy (JBool b) = b"
| "truthy (JNum r) = (r \<noteq> 0)"
| "truthy JNaN = False"
| "truthy (JStr s) = (s \<noteq> [])"
| "truthy (JArr xs) = True"
| "truthy (JObj kvs) = True"

text \<open>\<^verbatim>\<open>new Error(message)\<close>.\<close>

definition new_Error :: "string \<Rightarrow> jsval" where
  "new_Error msg = JObj [(''name'', JStr ''Error''), (''message'', JStr msg)]"

text \<open>
  The TypeError of a property read on \<^verbatim>\<open>null\<close> or \<^verbatim>\<open>undefined\<close>. The wording
  is V8's; other engines word it differently, none with an empty message.
\<close>

definition nullish_name :: "jsval \<Rightarrow> string" where
  "nullish_name v = (if v = JNull then ''null'' else ''undefined'')"

definition TypeError_message :: "jsval \<Rightarrow> string \<Rightarrow> string" where
  "TypeError_message v k =
     ''Cannot read properties of '' @ nullish_name v
       @ '' (reading '' @ [CHR 0x27] @ k @ [CHR 0x27] @ '')''"

definition read_TypeError :: "jsval \<Rightarrow> string \<Rightarrow> jsval" where
  "read_TypeError v k =
     JObj [(''name'', JStr ''TypeError''), (''message'', JStr (TypeError_message v k))]"

text \<open>
  The property read \<^verbatim>\<open>v.k\<close>, for the data properties this program reads
  (\<^verbatim>\<open>error\<close>, \<^verbatim>\<open>message\<close>): it throws on \<^verbatim>\<open>null\<close> and \<^verbatim>\<open>undefined\<close>, finds
  nothing on a boolean, number, string or array, and looks the key up in an object.
\<close>

fun get_prop :: "jsval \<Rightarrow> string \<Rightarrow> jsval completion" where
  "get_prop JUndefined k = Threw (read_TypeError JUndefined k)"
| "get_prop JNull k = Threw (read_TypeError JNull k)"
| "get_prop (JObj kvs) k =
     Returned (case map_of kvs k of None \<Rightarrow> JUndefined | Some v \<Rightarrow> v)"
| "get_prop v k = Returned JUndefined"

definition nullish :: "jsval \<Rightarrow> bool" where
  "nullish v = (v = JNull \<or> v = JUndefined)"

text \<open>An object has an own property \<open>k\<close>.\<close>

fun has_field :: "jsval \<Rightarrow> string \<Rightarrow> bool" where
  "has_field (JObj kvs) k = (k \<in> fst ` set kvs)"
| "has_field v k = False"

section \<open>The HTTP client (\<^verbatim>\<open>utils/api\<close>)\<close>

text \<open>
  \<^verbatim>\<open>import.meta.env\<close>: each variable is a string or is not set.
\<close>

record env =
  VITE_API_URL :: "string option"
  VITE_ENABLE_LOGGING :: "string option"

datatype http_method = GET | POST | DELETE

text \<open>The request configuration that reaches the interceptors and the adapter.\<close>

record request =
  req_method :: http_method
  req_url :: string
  req_data :: "jsval option"
  req_baseURL :: string
  req_timeout :: nat
  req_headers :: "(string \<times> string) list"

record response =
  resp_status :: int
  resp_data :: jsval

text \<open>
  What axios rejects with: an error object with a message, an error code when the
  library sets one, and the response when the server answered.
\<close>

record axios_error =
  err_message :: "string option"
  err_code :: "string option"
  err_response :: "response option"

datatype transport_outcome = Fulfilled response | Rejected axios_error

text \<open>
  The adapter and the network behind it are not part of the repository: what they
  answer to a request is a parameter of the model.
\<close>

type_synonym transport = "request \<Rightarrow> transport_outcome"

text \<open>The thrown value that stands for an axios error object.\<close>

definition response_value :: "response \<Rightarrow> jsval" where
  "response_value r =
     JObj [(''status'', JNum (of_int (resp_status r))), (''data'', resp_data r)]"

definition axios_error_value :: "axios_error \<Rightarrow> jsval" where
  "axios_error_value e =
     JObj [(''name'', JStr ''AxiosError''),
           (''message'', case err_message e of None \<Rightarrow> JUndefined | Some m \<Rightarrow> JStr m),
           (''code'', case err_code e of None \<Rightarrow> JUndefined | Some c \<Rightarrow> JStr c),
           (''response'', case err_response e of None \<Rightarrow> JUndefined
                                               | Some r \<Rightarrow> response_value r)]"

text \<open>The console, and the requests handed to the adapter, in order.\<close>

datatype payload = PConfig request | PResponse response | PError axios_error

datatype console_line = ConsoleLog string payload | ConsoleError string payload

record world =
  console :: "console_line list"
  sent :: "request list"

definition console_log :: "string \<Rightarrow> payload \<Rightarrow> world \<Rightarrow> world" where
  "console_log label p w = w\<lparr>console := console w @ [ConsoleLog label p]\<rparr>"

definition console_error :: "string \<Rightarrow> payload \<Rightarrow> world \<Rightarrow> world" where
  "console_error label p w = w\<lparr>console := console w @ [ConsoleError label p]\<rparr>"

text \<open>
  \<^verbatim>\<open>const API_BASE_URL = import.meta.env.VITE_API_URL || 'http://localhost:8000'\<close>
\<close>

definition API_BASE_URL :: "env \<Rightarrow> string" where
  "API_BASE_URL ev =
     (case VITE_API_URL ev of
        None \<Rightarrow> ''http://localhost:8000''
      | Some u \<Rightarrow> if u \<noteq> [] then u else ''http://localhost:8000'')"

text \<open>\<^verbatim>\<open>axios.create({baseURL, timeout: 10000, headers})\<close> merged with one call.\<close>

definition api_config :: "env \<Rightarrow> http_method \<Rightarrow> string \<Rightarrow> jsval option \<Rightarrow> request" where
  "api_config ev m u d =
     \<lparr>req_method = m, req_url = u, req_data = d,
      req_baseURL = API_BASE_URL ev, req_timeout = 10000,
      req_headers = [(''Content-Type'', ''application/json'')]\<rparr>"

text \<open>\<^verbatim>\<open>import.meta.env.VITE_ENABLE_LOGGING === 'true'\<close>\<close>

definition logging_enabled :: "env \<Rightarrow> bool" where
  "logging_enabled ev = (VITE_ENABLE_LOGGING ev = Some ''true'')"

subsection \<open>Interceptors\<close>

definition request_fulfilled :: "env \<Rightarrow> request \<Rightarrow> world \<Rightarrow> world \<times> request" where
  "request_fulfilled ev config w =
     ((if logging_enabled ev then console_log ''API Request:'' (PConfig config) w else w),
      config)"

text \<open>
  The two error handlers never return normally: the result is the world and the value
  they throw (or reject with). The handler of the request interceptor is the only one
  before the adapter, so no rejection reaches it; it is kept as the source has it.
\<close>

definition request_rejected :: "axios_error \<Rightarrow> world \<Rightarrow> world \<times> jsval" where
  "request_rejected err w =
     (console_error ''API Request Error:'' (PError err) w, axios_error_value err)"

definition response_fulfilled :: "env \<Rightarrow> response \<Rightarrow> world \<Rightarrow> world \<times> response" where
  "response_fulfilled ev resp w =
     ((if logging_enabled ev then console_log ''API Response:'' (PResponse resp) w else w),
      resp)"

text \<open>
  \<^verbatim>\<open>error.response?.status\<close> is \<^verbatim>\<open>undefined\<close> without a response; \<^verbatim>\<open>undefined\<close>
  is neither \<^verbatim>\<open>=== 404\<close> nor \<^verbatim>\<open>>= 500\<close>.
\<close>

definition status_is_404 :: "axios_error \<Rightarrow> bool" where
  "status_is_404 err = (case err_response err of None \<Rightarrow> False | Some r \<Rightarrow> resp_status r = 404)"

definition status_ge_500 :: "axios_error \<Rightarrow> bool" where
  "status_ge_500 err = (case err_response err of None \<Rightarrow> False | Some r \<Rightarrow> resp_status r \<ge> 500)"

definition response_rejected :: "axios_error \<Rightarrow> world \<Rightarrow> world \<times> jsval" where
  "response_rejected err w =
     (let w' = console_error ''API Response Error:'' (PError err) w in
      if status_is_404 err then (w', new_Error ''Game session not found'')
      else if status_ge_500 err then
        (w', new_Error ''Server error - please try again later'')
      else if err_code err = Some ''ECONNABORTED'' then
        (w', new_Error ''Request timeout - please check your connection'')
      else (w', axios_error_value err))"

text \<open>
  One request through the instance: the request interceptor, the adapter, then the
  response interceptor (its second handler when the adapter rejects).
\<close>

definition api_request :: "env \<Rightarrow> transport \<Rightarrow> request \<Rightarrow> world \<Rightarrow> world \<times> response completion" where
  "api_request ev tr config w =
     (let (w1, config1) = request_fulfilled ev config w;
          w2 = w1\<lparr>sent := sent w1 @ [config1]\<rparr>
      in case tr config1 of
           Fulfilled resp \<Rightarrow>
             (let (w3, resp') = response_fulfilled ev resp w2 in (w3, Returned resp'))
         | Rejected err \<Rightarrow>
             (let (w3, thrown) = response_rejected err w2 in (w3, Threw thrown)))"

definition api_post :: "env \<Rightarrow> transport \<Rightarrow> string \<Rightarrow> jsval \<Rightarrow> world \<Rightarrow> world \<times> response completion" where
  "api_post ev tr u d = api_request ev tr (api_config ev POST u (Some d))"

definition api_get :: "env \<Rightarrow> transport \<Rightarrow> string \<Rightarrow> world \<Rightarrow> world \<times> response completion" where
  "api_get ev tr u = api_request ev tr (api_config ev GET u None)"

definition api_delete :: "env \<Rightarrow> transport \<Rightarrow> string \<Rightarrow> world \<Rightarrow> world \<times> response completion" where
  "api_delete ev tr u = api_request ev tr (api_config ev DELETE u None)"

subsection \<open>The six operations of \<^verbatim>\<open>gameAPI\<close>\<close>

text \<open>\<^verbatim>\<open>return response.data\<close> after the awaited request; a rejection passes through.\<close>

definition response_data :: "world \<times> response completion \<Rightarrow> world \<times> jsval completion" where
  "response_data p =
     (case p of (w, Returned resp) \<Rightarrow> (w, Returned (resp_data resp))
              | (w, Threw e) \<Rightarrow> (w, Threw e))"

text \<open>A default parameter value replaces an argument that is \<^verbatim>\<open>undefined\<close>.\<close>

definition default_param :: "jsval \<Rightarrow> jsval \<Rightarrow> jsval" where
  "default_param d a = (if a = JUndefined then d else a)"

definition gameAPI_startGame ::
  "env \<Rightarrow> transport \<Rightarrow> jsval \<Rightarrow> jsval \<Rightarrow> world \<Rightarrow> world \<times> jsval completion" where
  "gameAPI_startGame ev tr playerName clientSeed w =
     response_data
       (api_post ev tr ''/start_game''
          (JObj [(''player_name'', playerName),
                 (''seed'', default_param JNull clientSeed)]) w)"

definition gameAPI_takeTurn ::
  "env \<Rightarrow> transport \<Rightarrow> jsval \<Rightarrow> jsval \<Rightarrow> jsval \<Rightarrow> jsval \<Rightarrow> world \<Rightarrow> world \<times> jsval completion" where
  "gameAPI_takeTurn ev tr sessionId playerName pathId insurance w =
     response_data
       (api_post ev tr ''/take_turn''
          (JObj [(''session_id'', sessionId),
                 (''player_name'', playerName),
                 (''chosen_path_id'', pathId),
                 (''insurance'', default_param (JBool False) insurance)]) w)"

definition gameAPI_getGameState ::
  "env \<Rightarrow> transport \<Rightarrow> string \<Rightarrow> world \<Rightarrow> world \<times> jsval completion" where
  "gameAPI_getGameState ev tr sessionId w =
     response_data (api_get ev tr (''/game_state/'' @ sessionId) w)"

definition gameAPI_revealProvenance ::
  "env \<Rightarrow> transport \<Rightarrow> string \<Rightarrow> world \<Rightarrow> world \<times> jsval completion" where
  "gameAPI_revealProvenance ev tr sessionId w =
     response_data (api_get ev tr (''/reveal_game/'' @ sessionId) w)"

definition gameAPI_endSession ::
  "env \<Rightarrow> transport \<Rightarrow> string \<Rightarrow> world \<Rightarrow> world \<times> jsval completion" where
  "gameAPI_endSession ev tr sessionId w =
     response_data (api_delete ev tr (''/session/'' @ sessionId) w)"

definition gameAPI_healthCheck ::
  "env \<Rightarrow> transport \<Rightarrow> world \<Rightarrow> world \<times> jsval completion" where
  "gameAPI_healthCheck ev tr w = response_data (api_get ev tr ''/health'' w)"

section \<open>The call-state hook (\<^verbatim>\<open>useGameApi\<close>)\<close>

text \<open>
  The two pieces of React state. \<^verbatim>\<open>setError(result.error)\<close> stores whatever value
  the body carries, so the error is a JavaScript value; it starts as \<^verbatim>\<open>''\<close>.
\<close>

record call_state =
  loading :: bool
  error :: jsval

definition setLoading :: "bool \<Rightarrow> call_state \<Rightarrow> call_state" where
  "setLoading b st = st\<lparr>loading := b\<rparr>"

definition setError :: "jsval \<Rightarrow> call_state \<Rightarrow> call_state" where
  "setError v st = st\<lparr>error := v\<rparr>"

definition initial_state :: call_state where
  "initial_state = \<lparr>loading = False, error = JStr []\<rparr>"

text \<open>
  \<^verbatim>\<open>apiCall(apiFunction, ...args)\<close> for one invocation that runs alone. The awaited
  call \<^verbatim>\<open>apiFunction(...args)\<close> is the computation \<open>call\<close> on the world. The
  \<^verbatim>\<open>try\<close> block, the \<^verbatim>\<open>catch\<close> block and the \<^verbatim>\<open>finally\<close> block are kept apart:
  a throw inside \<^verbatim>\<open>catch\<close> is not caught again, and \<^verbatim>\<open>finally\<close> runs in every case.
\<close>

type_synonym api_function = "world \<Rightarrow> world \<times> jsval completion"

definition apiCall_try ::
  "api_function \<Rightarrow> call_state \<times> world \<Rightarrow> (call_state \<times> world) \<times> jsval completion" where
  "apiCall_try call sw =
     (case sw of (st, w) \<Rightarrow>
        (case call w of
           (w', Threw err) \<Rightarrow> ((st, w'), Threw err)
         | (w', Returned result) \<Rightarrow>
             (case get_prop result ''error'' of
                Threw err \<Rightarrow> ((st, w'), Threw err)
              | Returned e \<Rightarrow>
                  if truthy e then ((setError e st, w'), Returned JNull)
                  else ((st, w'), Returned result))))"

definition apiCall_catch ::
  "jsval \<Rightarrow> call_state \<times> world \<Rightarrow> (call_state \<times> world) \<times> jsval completion" where
  "apiCall_catch err sw =
     (case sw of (st, w) \<Rightarrow>
        (case get_prop err ''message'' of
           Threw t \<Rightarrow> ((st, w), Threw t)
         | Returned m \<Rightarrow>
             (let errorMessage = (if truthy m then m else JStr ''An unexpected error occurred'')
              in ((setError errorMessage st, w), Returned JNull))))"

definition apiCall ::
  "api_function \<Rightarrow> call_state \<times> world \<Rightarrow> (call_state \<times> world) \<times> jsval completion" where
  "apiCall call sw =
     (case sw of (st, w) \<Rightarrow>
        (let st1 = setLoading True st;
             st2 = setError (JStr []) st1;
             (sw3, r3) = apiCall_try call (st2, w);
             (sw4, r4) = (case r3 of Threw err \<Rightarrow> apiCall_catch err sw3
                                   | Returned v \<Rightarrow> (sw3, Returned v))
         in ((setLoading False (fst sw4), snd sw4), r4)))"

definition clearError :: "call_state \<times> world \<Rightarrow> call_state \<times> world" where
  "clearError sw = (case sw of (st, w) \<Rightarrow> (setError (JStr []) st, w))"

text \<open>The six bindings the hook returns.\<close>

definition startGame ::
  "env \<Rightarrow> transport \<Rightarrow> jsval \<Rightarrow> jsval \<Rightarrow> call_state \<times> world \<Rightarrow> (call_state \<times> world) \<times> jsval completion" where
  "startGame ev tr playerName clientSeed = apiCall (gameAPI_startGame ev tr playerName clientSeed)"

definition takeTurn ::
  "env \<Rightarrow> transport \<Rightarrow> jsval \<Rightarrow> jsval \<Rightarrow> jsval \<Rightarrow> jsval \<Rightarrow> call_state \<times> world
     \<Rightarrow> (call_state \<times> world) \<times> jsval completion" where
  "takeTurn ev tr sessionId playerName pathId insurance =
     apiCall (gameAPI_takeTurn ev tr sessionId playerName pathId insurance)"

definition getGameState ::
  "env \<Rightarrow> transport \<Rightarrow> string \<Rightarrow> call_state \<times> world \<Rightarrow> (call_state \<times> world) \<times> jsval completion" where
  "getGameState ev tr sessionId = apiCall (gameAPI_getGameState ev tr sessionId)"

definition revealProvenance ::
  "env \<Rightarrow> transport \<Rightarrow> string \<Rightarrow> call_state \<times> world \<Rightarrow> (call_state \<times> world) \<times> jsval completion" where
  "revealProvenance ev tr sessionId = apiCall (gameAPI_revealProvenance ev tr sessionId)"

definition endSession ::
  "env \<Rightarrow> transport \<Rightarrow> string \<Rightarrow> call_state \<times> world \<Rightarrow> (call_state \<times> world) \<times> jsval completion" where
  "endSession ev tr sessionId = apiCall (gameAPI_endSession ev tr sessionId)"

definition healthCheck ::
  "env \<Rightarrow> transport \<Rightarrow> call_state \<times> world \<Rightarrow> (call_state \<times> world) \<times> jsval completion" where
  "healthCheck ev tr = apiCall (gameAPI_healthCheck ev tr)"

text \<open>
  An operation together with its arguments, to speak of all six at once: \<open>gameAPI\<close>
  is the client's function applied to the arguments, \<open>invoke\<close> the hook's binding.
\<close>

datatype operation =
    StartGame jsval jsval
  | TakeTurn jsval jsval jsval jsval
  | GetGameState string
  | RevealProvenance string
  | EndSession string
  | HealthCheck

fun gameAPI :: "env \<Rightarrow> transport \<Rightarrow> operation \<Rightarrow> api_function" where
  "gameAPI ev tr (StartGame playerName clientSeed) = gameAPI_startGame ev tr playerName clientSeed"
| "gameAPI ev tr (TakeTurn sessionId playerName pathId insurance) =
     gameAPI_takeTurn ev tr sessionId playerName pathId insurance"
| "gameAPI ev tr (GetGameState sessionId) = gameAPI_getGameState ev tr sessionId"
| "gameAPI ev tr (RevealProvenance sessionId) = gameAPI_revealProvenance ev tr sessionId"
| "gameAPI ev tr (EndSession sessionId) = gameAPI_endSession ev tr sessionId"
| "gameAPI ev tr HealthCheck = gameAPI_healthCheck ev tr"

fun invoke ::
  "env \<Rightarrow> transport \<Rightarrow> operation \<Rightarrow> call_state \<times> world \<Rightarrow> (call_state \<times> world) \<times> jsval completion" where
  "invoke ev tr (StartGame playerName clientSeed) = startGame ev tr playerName clientSeed"
| "invoke ev tr (TakeTurn sessionId playerName pathId insurance) =
     takeTurn ev tr sessionId playerName pathId insurance"
| "invoke ev tr (GetGameState sessionId) = getGameState ev tr sessionId"
| "invoke ev tr (RevealProvenance sessionId) = revealProvenance ev tr sessionId"
| "invoke ev tr (EndSession sessionId) = endSession ev tr sessionId"
| "invoke ev tr HealthCheck = healthCheck ev tr"

text \<open>
  The request configuration each operation hands to the instance (the argument of
  \<^verbatim>\<open>api.post\<close>, \<^verbatim>\<open>api.get\<close> or \<^verbatim>\<open>api.delete\<close> merged with the defaults).
\<close>

fun op_config :: "env \<Rightarrow> operation \<Rightarrow> request" where
  "op_config ev (StartGame playerName clientSeed) =
     api_config ev POST ''/start_game''
       (Some (JObj [(''player_name'', playerName),
                    (''seed'', default_param JNull clientSeed)]))"
| "op_config ev (TakeTurn sessionId playerName pathId insurance) =
     api_config ev POST ''/take_turn''
       (Some (JObj [(''session_id'', sessionId),
                    (''player_name'', playerName),
                    (''chosen_path_id'', pathId),
                    (''insurance'', default_param (JBool False) insurance)]))"
| "op_config ev (GetGameState sessionId) = api_config ev GET (''/game_state/'' @ sessionId) None"
| "op_config ev (RevealProvenance sessionId) =
     api_config ev GET (''/reveal_game/'' @ sessionId) None"
| "op_config ev (EndSession sessionId) = api_config ev DELETE (''/session/'' @ sessionId) None"
| "op_config ev HealthCheck = api_config ev GET ''/health'' None"

text \<open>A transport that gives every request the same answer, and an empty world.\<close>

definition always :: "transport_outcome \<Rightarrow> transport" where
  "always out config = out"

definition no_env :: env where
  "no_env = \<lparr>VITE_API_URL = None, VITE_ENABLE_LOGGING = None\<rparr>"

definition empty_world :: world where
  "empty_world = \<lparr>console = [], sent = []\<rparr>"

text \<open>
  Rejections as axios produces them: a 404 and a 503 answer, the 10000 ms timeout, and
  a network error; and an environment with logging switched on.
\<close>

definition not_found_error :: axios_error where
  "not_found_error =
     \<lparr>err_message = Some ''Request failed with status code 404'',
      err_code = Some ''ERR_BAD_REQUEST'',
      err_response = Some \<lparr>resp_status = 404, resp_data = JNull\<rparr>\<rparr>"

definition unavailable_error :: axios_error where
  "unavailable_error =
     \<lparr>err_message = Some ''Request failed with status code 503'',
      err_code = Some ''ERR_BAD_RESPONSE'',
      err_response = Some \<lparr>resp_status = 503, resp_data = JNull\<rparr>\<rparr>"

definition timeout_error :: axios_error where
  "timeout_error =
     \<lparr>err_message = Some ''timeout of 10000ms exceeded'',
      err_code = Some ''ECONNABORTED'',
      err_response = None\<rparr>"

definition network_error :: axios_error where
  "network_error =
     \<lparr>err_message = Some ''Network Error'',
      err_code = Some ''ERR_NETWORK'',
      err_response = None\<rparr>"

definition logging_env :: env where
  "logging_env = \<lparr>VITE_API_URL = None, VITE_ENABLE_LOGGING = Some ''true''\<rparr>"

section \<open>Basic facts\<close>

lemma invoke_apiCall: "invoke ev tr opn = apiCall (gameAPI ev tr opn)"
  by (cases opn)
     (simp_all add: startGame_def takeTurn_def getGameState_def revealProvenance_def
        endSession_def healthCheck_def)

lemma gameAPI_request:
  "gameAPI ev tr opn w = response_data (api_request ev tr (op_config ev opn) w)"
  by (cases opn)
     (simp_all add: gameAPI_startGame_def gameAPI_takeTurn_def gameAPI_getGameState_def
        gameAPI_revealProvenance_def gameAPI_endSession_def gameAPI_healthCheck_def
        api_post_def api_get_def api_delete_def)

text \<open>The world after the request interceptor and the hand-over to the adapter.\<close>

lemma api_request_Fulfilled:
  assumes "tr config = Fulfilled resp"
  shows "api_request ev tr config w =
           (\<lparr>console = console w
                @ (if logging_enabled ev
                   then [ConsoleLog ''API Request:'' (PConfig config),
                         ConsoleLog ''API Response:'' (PResponse resp)]
                   else []),
             sent = sent w @ [config]\<rparr>, Returned resp)"
  using assms
  by (simp add: api_request_def request_fulfilled_def response_fulfilled_def console_log_def)

lemma response_rejected_thrown:
  "snd (response_rejected err w) =
     (if status_is_404 err then new_Error ''Game session not found''
      else if status_ge_500 err then new_Error ''Server error - please try again later''
      else if err_code err = Some ''ECONNABORTED''
        then new_Error ''Request timeout - please check your connection''
      else axios_error_value err)"
  by (simp add: response_rejected_def Let_def)

lemma response_rejected_world:
  "fst (response_rejected err w) =
     w\<lparr>console := console w @ [ConsoleError ''API Response Error:'' (PError err)]\<rparr>"
  by (simp add: response_rejected_def Let_def console_error_def)

lemma api_request_Rejected:
  assumes "tr config = Rejected err"
  shows "api_request ev tr config w =
           (\<lparr>console = console w
                @ (if logging_enabled ev
                   then [ConsoleLog ''API Request:'' (PConfig config)] else [])
                @ [ConsoleError ''API Response Error:'' (PError err)],
             sent = sent w @ [config]\<rparr>,
            Threw (snd (response_rejected err w)))"
  using assms
  by (simp add: api_request_def request_fulfilled_def response_rejected_def Let_def
        console_log_def console_error_def)

lemma gameAPI_Fulfilled:
  assumes "tr (op_config ev opn) = Fulfilled resp"
  shows "gameAPI ev tr opn w =
           (\<lparr>console = console w
                @ (if logging_enabled ev
                   then [ConsoleLog ''API Request:'' (PConfig (op_config ev opn)),
                         ConsoleLog ''API Response:'' (PResponse resp)]
                   else []),
             sent = sent w @ [op_config ev opn]\<rparr>, Returned (resp_data resp))"
  using api_request_Fulfilled [of tr "op_config ev opn" resp ev w] assms
  by (simp add: gameAPI_request response_data_def)

lemma gameAPI_Rejected:
  assumes "tr (op_config ev opn) = Rejected err"
  shows "gameAPI ev tr opn w =
           (\<lparr>console = console w
                @ (if logging_enabled ev
                   then [ConsoleLog ''API Request:'' (PConfig (op_config ev opn))] else [])
                @ [ConsoleError ''API Response Error:'' (PError err)],
             sent = sent w @ [op_config ev opn]\<rparr>,
            Threw (snd (response_rejected err w)))"
  using api_request_Rejected [of tr "op_config ev opn" err ev w] assms
  by (simp add: gameAPI_request response_data_def)

lemma gameAPI_sent: "sent (fst (gameAPI ev tr opn w)) = sent w @ [op_config ev opn]"
  by (cases "tr (op_config ev opn)") (simp_all add: gameAPI_Fulfilled gameAPI_Rejected)

text \<open>No operation throws \<^verbatim>\<open>null\<close> or \<^verbatim>\<open>undefined\<close>: what it throws is an object.\<close>

lemma thrown_message:
  "\<exists>m. get_prop (new_Error s) ''message'' = Returned m"
  "\<exists>m. get_prop (axios_error_value err) ''message'' = Returned m"
  by (simp_all add: new_Error_def axios_error_value_def)

lemma gameAPI_thrown_object:
  assumes "gameAPI ev tr opn w = (w', Threw failure)"
  shows "\<exists>m. get_prop failure ''message'' = Returned m"
proof (cases "tr (op_config ev opn)")
  case (Fulfilled resp)
  with assms show ?thesis by (simp add: gameAPI_Fulfilled)
next
  case (Rejected err)
  with assms have "failure = snd (response_rejected err w)"
    by (simp add: gameAPI_Rejected)
  then show ?thesis
    using thrown_message by (auto simp: response_rejected_thrown split: if_splits)
qed

subsection \<open>The four ways \<open>apiCall\<close> settles, and the one way it does not\<close>

lemma apiCall_clean:
  assumes "call w = (w', Returned body)" "get_prop body ''error'' = Returned e" "\<not> truthy e"
  shows "apiCall call (st, w) = ((st\<lparr>loading := False, error := JStr []\<rparr>, w'), Returned body)"
  using assms by (simp add: apiCall_def apiCall_try_def setLoading_def setError_def)

lemma apiCall_embedded_error:
  assumes "call w = (w', Returned body)" "get_prop body ''error'' = Returned e" "truthy e"
  shows "apiCall call (st, w) = ((st\<lparr>loading := False, error := e\<rparr>, w'), Returned JNull)"
  using assms by (simp add: apiCall_def apiCall_try_def setLoading_def setError_def)

lemma apiCall_nullish_body:
  assumes "call w = (w', Returned body)" "nullish body"
  shows "apiCall call (st, w) =
           ((st\<lparr>loading := False, error := JStr (TypeError_message body ''error'')\<rparr>, w'),
            Returned JNull)"
  using assms
  by (auto simp: apiCall_def apiCall_try_def apiCall_catch_def setLoading_def setError_def
        nullish_def read_TypeError_def TypeError_message_def)

lemma apiCall_failure:
  assumes "call w = (w', Threw failure)" "get_prop failure ''message'' = Returned m"
  shows "apiCall call (st, w) =
           ((st\<lparr>loading := False,
                error := (if truthy m then m else JStr ''An unexpected error occurred'')\<rparr>, w'),
            Returned JNull)"
  using assms
  by (simp add: apiCall_def apiCall_try_def apiCall_catch_def setLoading_def setError_def)

lemma apiCall_nullish_failure:
  assumes "call w = (w', Threw failure)" "nullish failure"
  shows "apiCall call (st, w) =
           ((st\<lparr>loading := False, error := JStr []\<rparr>, w'),
            Threw (read_TypeError failure ''message''))"
  using assms
  by (auto simp: apiCall_def apiCall_try_def apiCall_catch_def setLoading_def setError_def
        nullish_def)

lemma get_prop_cases:
  "nullish v \<or> (\<exists>x. get_prop v k = Returned x)"
  by (cases v) (simp_all add: nullish_def)

lemma get_prop_no_field:
  assumes "\<not> nullish v" "\<not> has_field v k"
  shows "get_prop v k = Returned JUndefined"
proof (cases v)
  case (JObj kvs)
  with assms have "map_of kvs k = None" by (simp add: map_of_eq_None_iff)
  with JObj show ?thesis by simp
qed (use assms in \<open>simp_all add: nullish_def\<close>)

lemma apiCall_loading: "loading (fst (fst (apiCall call sw))) = False"
  by (cases sw) (simp add: apiCall_def setLoading_def split: prod.splits)

lemma apiCall_returns:
  assumes "\<forall>w' failure. call w = (w', Threw failure) \<longrightarrow> \<not> nullish failure"
  shows "\<exists>sw' r. apiCall call (st, w) = (sw', Returned r) \<and> (r = JNull \<or> snd (call w) = Returned r)"
proof (cases "call w")
  case (Pair w' c)
  show ?thesis
  proof (cases c)
    case (Returned body)
    show ?thesis
    proof (cases "nullish body")
      case True
      with Pair Returned show ?thesis by (simp add: apiCall_nullish_body)
    next
      case False
      then obtain e where e: "get_prop body ''error'' = Returned e"
        using get_prop_cases by blast
      show ?thesis
      proof (cases "truthy e")
        case True
        with Pair Returned e show ?thesis by (simp add: apiCall_embedded_error)
      next
        case False
        with Pair Returned e show ?thesis by (simp add: apiCall_clean)
      qed
    qed
  next
    case (Threw failure)
    with Pair assms have "\<not> nullish failure" by simp
    then obtain m where "get_prop failure ''message'' = Returned m"
      using get_prop_cases by blast
    with Pair Threw show ?thesis by (simp add: apiCall_failure)
  qed
qed


text \<open>The definitions that evaluate a concrete run.\<close>

lemmas client_defs =
  gameAPI_startGame_def gameAPI_takeTurn_def gameAPI_getGameState_def
  gameAPI_revealProvenance_def gameAPI_endSession_def gameAPI_healthCheck_def
  api_post_def api_get_def api_delete_def api_request_def
  request_fulfilled_def response_fulfilled_def response_rejected_def response_data_def
  console_log_def console_error_def status_is_404_def status_ge_500_def
  logging_enabled_def api_config_def API_BASE_URL_def default_param_def
  new_Error_def axios_error_value_def response_value_def
  always_def no_env_def empty_world_def logging_env_def
  not_found_error_def unavailable_error_def timeout_error_def network_error_def

lemmas hook_defs =
  startGame_def takeTurn_def getGameState_def revealProvenance_def endSession_def
  healthCheck_def apiCall_def apiCall_try_def apiCall_catch_def
  setLoading_def setError_def initial_state_def

section \<open>The claims\<close>

text \<open>
  C2. After an invocation settles the loading flag is false, whatever the awaited call
  did: a clean body, an embedded application error, a raised failure, and also when
  \<open>apiCall\<close> itself ends by throwing. It holds for any awaited call, and so for each
  of the six bindings with any arguments, transport and starting state.
\<close>

theorem loading_false_after_settle:
  "loading (fst (fst (apiCall call sw))) = False \<and>
   loading (fst (fst (invoke ev tr opn sw))) = False"
  by (simp add: invoke_apiCall apiCall_loading)

text \<open>
  C8. \<^verbatim>\<open>clearError()\<close> sets the error to the empty string and changes nothing else:
  the loading flag and the world are as before.
\<close>

theorem clearError_only_error:
  "clearError (st, w) = (st\<lparr>error := JStr []\<rparr>, w) \<and>
   error (fst (clearError (st, w))) = JStr [] \<and>
   loading (fst (clearError (st, w))) = loading st \<and>
   snd (clearError (st, w)) = w"
  by (simp add: clearError_def setError_def)

text \<open>
  C3. When the transport fulfils the request and the body's \<^verbatim>\<open>error\<close> field is
  truthy, the operation of the client returns the body without throwing, and the
  binding stores the field's value as the error, returns \<^verbatim>\<open>null\<close> and does not
  throw. Nothing is thrown at either layer, unlike a transport failure.
\<close>

theorem embedded_error_stored:
  assumes "tr (op_config ev opn) = Fulfilled resp"
    and "get_prop (resp_data resp) ''error'' = Returned e"
    and "truthy e"
  shows "snd (gameAPI ev tr opn w) = Returned (resp_data resp) \<and>
         invoke ev tr opn (st, w) =
           ((st\<lparr>loading := False, error := e\<rparr>, fst (gameAPI ev tr opn w)), Returned JNull)"
proof -
  obtain w' where g: "gameAPI ev tr opn w = (w', Returned (resp_data resp))"
    using assms(1) by (simp add: gameAPI_Fulfilled)
  have "apiCall (gameAPI ev tr opn) (st, w) =
          ((st\<lparr>loading := False, error := e\<rparr>, w'), Returned JNull)"
    by (rule apiCall_embedded_error
          [where call = "gameAPI ev tr opn" and w = w, OF g assms(2) assms(3)])
  with g show ?thesis by (simp add: invoke_apiCall)
qed

text \<open>
  The scenario of the specification: \<^verbatim>\<open>takeTurn("abc123", "Ava", "path-2", false)\<close>
  answered with status 200 and the body \<^verbatim>\<open>{error: "invalid path"}\<close>.
\<close>

theorem embedded_error_stored_witness:
  "always (Fulfilled \<lparr>resp_status = 200, resp_data = JObj [(''error'', JStr ''invalid path'')]\<rparr>)
     (op_config no_env (TakeTurn (JStr ''abc123'') (JStr ''Ava'') (JStr ''path-2'') (JBool False)))
     = Fulfilled \<lparr>resp_status = 200, resp_data = JObj [(''error'', JStr ''invalid path'')]\<rparr> \<and>
   get_prop (JObj [(''error'', JStr ''invalid path'')]) ''error'' = Returned (JStr ''invalid path'') \<and>
   truthy (JStr ''invalid path'') \<and>
   fst (fst (invoke no_env
     (always (Fulfilled \<lparr>resp_status = 200,
                         resp_data = JObj [(''error'', JStr ''invalid path'')]\<rparr>))
     (TakeTurn (JStr ''abc123'') (JStr ''Ava'') (JStr ''path-2'') (JBool False))
     (initial_state, empty_world)))
     = \<lparr>loading = False, error = JStr ''invalid path''\<rparr> \<and>
   snd (invoke no_env
     (always (Fulfilled \<lparr>resp_status = 200,
                         resp_data = JObj [(''error'', JStr ''invalid path'')]\<rparr>))
     (TakeTurn (JStr ''abc123'') (JStr ''Ava'') (JStr ''path-2'') (JBool False))
     (initial_state, empty_world))
     = Returned JNull"
  using embedded_error_stored
    [of "always (Fulfilled \<lparr>resp_status = 200,
                             resp_data = JObj [(''error'', JStr ''invalid path'')]\<rparr>)"
        no_env "TakeTurn (JStr ''abc123'') (JStr ''Ava'') (JStr ''path-2'') (JBool False)"
        "\<lparr>resp_status = 200, resp_data = JObj [(''error'', JStr ''invalid path'')]\<rparr>"
        "JStr ''invalid path''" empty_world initial_state]
  by (simp add: always_def initial_state_def)

text \<open>
  C10. When the transport fulfils the request with a body that is \<^verbatim>\<open>null\<close> or
  \<^verbatim>\<open>undefined\<close>, reading the body's \<^verbatim>\<open>error\<close> field throws a TypeError; the
  \<^verbatim>\<open>catch\<close> block takes it, so the binding returns \<^verbatim>\<open>null\<close> and the error is the
  TypeError's message, which is not the empty string.
\<close>

theorem nullish_body_reported_as_failure:
  assumes "tr (op_config ev opn) = Fulfilled resp"
    and "nullish (resp_data resp)"
  shows "get_prop (resp_data resp) ''error'' = Threw (read_TypeError (resp_data resp) ''error'') \<and>
         get_prop (read_TypeError (resp_data resp) ''error'') ''message''
           = Returned (JStr (TypeError_message (resp_data resp) ''error'')) \<and>
         invoke ev tr opn (st, w) =
           ((st\<lparr>loading := False, error := JStr (TypeError_message (resp_data resp) ''error'')\<rparr>,
             fst (gameAPI ev tr opn w)), Returned JNull) \<and>
         JStr (TypeError_message (resp_data resp) ''error'') \<noteq> JStr []"
proof -
  obtain w' where g: "gameAPI ev tr opn w = (w', Returned (resp_data resp))"
    using assms(1) by (simp add: gameAPI_Fulfilled)
  have "get_prop (resp_data resp) ''error'' = Threw (read_TypeError (resp_data resp) ''error'')"
    using assms(2) by (auto simp: nullish_def)
  moreover have "get_prop (read_TypeError (resp_data resp) ''error'') ''message''
      = Returned (JStr (TypeError_message (resp_data resp) ''error''))"
    by (simp add: read_TypeError_def)
  moreover have "invoke ev tr opn (st, w) =
      ((st\<lparr>loading := False, error := JStr (TypeError_message (resp_data resp) ''error'')\<rparr>,
        fst (gameAPI ev tr opn w)), Returned JNull)"
    using apiCall_nullish_body [where call = "gameAPI ev tr opn" and w = w, OF g assms(2)] g
    by (simp add: invoke_apiCall)
  moreover have "TypeError_message (resp_data resp) ''error'' \<noteq> []"
    by (simp add: TypeError_message_def)
  ultimately show ?thesis by simp
qed

theorem nullish_body_reported_as_failure_witness:
  "always (Fulfilled \<lparr>resp_status = 200, resp_data = JNull\<rparr>)
     (op_config no_env (EndSession ''abc123''))
     = Fulfilled \<lparr>resp_status = 200, resp_data = JNull\<rparr> \<and>
   nullish JNull \<and>
   invoke no_env (always (Fulfilled \<lparr>resp_status = 200, resp_data = JNull\<rparr>))
     (EndSession ''abc123'') (initial_state, empty_world)
     = ((\<lparr>loading = False, error = JStr (TypeError_message JNull ''error'')\<rparr>,
         fst (gameAPI no_env (always (Fulfilled \<lparr>resp_status = 200, resp_data = JNull\<rparr>))
                (EndSession ''abc123'') empty_world)),
        Returned JNull) \<and>
   TypeError_message JNull ''error''
     = ''Cannot read properties of null (reading '' @ [CHR 0x27] @ ''error'' @ [CHR 0x27] @ '')''"
  using nullish_body_reported_as_failure
    [of "always (Fulfilled \<lparr>resp_status = 200, resp_data = JNull\<rparr>)"
        no_env "EndSession ''abc123''" "\<lparr>resp_status = 200, resp_data = JNull\<rparr>"
        initial_state empty_world]
  by (simp add: always_def initial_state_def nullish_def TypeError_message_def nullish_name_def)

text \<open>
  C4, as stated: a fulfilled response whose body has no \<^verbatim>\<open>error\<close> field gives
  \<open>loading = False\<close>, \<open>error = ''\<close> and a non-null result equal to the body. It
  fails for the body \<^verbatim>\<open>null\<close> (the JSON text \<^verbatim>\<open>null\<close> with status 200): the body
  has no field at all, the read of \<^verbatim>\<open>result.error\<close> throws, and the binding returns
  \<^verbatim>\<open>null\<close> with a non-empty error.
\<close>

theorem clean_response_counterexample:
  "always (Fulfilled \<lparr>resp_status = 200, resp_data = JNull\<rparr>) (op_config no_env HealthCheck)
     = Fulfilled \<lparr>resp_status = 200, resp_data = JNull\<rparr> \<and>
   \<not> has_field JNull ''error'' \<and>
   error (fst (fst (invoke no_env (always (Fulfilled \<lparr>resp_status = 200, resp_data = JNull\<rparr>))
                      HealthCheck (initial_state, empty_world))))
     = JStr (''Cannot read properties of null (reading '' @ [CHR 0x27] @ ''error''
              @ [CHR 0x27] @ '')'') \<and>
   error (fst (fst (invoke no_env (always (Fulfilled \<lparr>resp_status = 200, resp_data = JNull\<rparr>))
                      HealthCheck (initial_state, empty_world))))
     \<noteq> JStr [] \<and>
   snd (invoke no_env (always (Fulfilled \<lparr>resp_status = 200, resp_data = JNull\<rparr>))
          HealthCheck (initial_state, empty_world))
     = Returned JNull"
  by (simp add: healthCheck_def gameAPI_healthCheck_def api_get_def api_request_def
        request_fulfilled_def response_fulfilled_def response_data_def api_config_def
        logging_enabled_def no_env_def always_def apiCall_def apiCall_try_def apiCall_catch_def
        setLoading_def setError_def initial_state_def empty_world_def read_TypeError_def
        TypeError_message_def nullish_name_def)

text \<open>
  C4, amended: for all six operations, a fulfilled response whose body is neither
  \<^verbatim>\<open>null\<close> nor \<^verbatim>\<open>undefined\<close> and has no \<^verbatim>\<open>error\<close> field gives
  \<open>loading = False\<close>, \<open>error = ''\<close> and a result equal to the body, which is not
  \<^verbatim>\<open>null\<close>.
\<close>

theorem clean_response_returned:
  assumes "tr (op_config ev opn) = Fulfilled resp"
    and "\<not> nullish (resp_data resp)"
    and "\<not> has_field (resp_data resp) ''error''"
  shows "invoke ev tr opn (st, w) =
           ((st\<lparr>loading := False, error := JStr []\<rparr>, fst (gameAPI ev tr opn w)),
            Returned (resp_data resp)) \<and>
         resp_data resp \<noteq> JNull"
proof -
  obtain w' where g: "gameAPI ev tr opn w = (w', Returned (resp_data resp))"
    using assms(1) by (simp add: gameAPI_Fulfilled)
  have e: "get_prop (resp_data resp) ''error'' = Returned JUndefined"
    using assms(2,3) by (rule get_prop_no_field)
  have "apiCall (gameAPI ev tr opn) (st, w) =
          ((st\<lparr>loading := False, error := JStr []\<rparr>, w'), Returned (resp_data resp))"
    by (rule apiCall_clean [where call = "gameAPI ev tr opn" and w = w, OF g e]) simp
  with g assms(2) show ?thesis by (auto simp: invoke_apiCall nullish_def)
qed

text \<open>
  The scenario of the specification: \<^verbatim>\<open>startGame("Ava", null)\<close> answered with a
  body that carries \<^verbatim>\<open>session_id: "abc123"\<close>.
\<close>

theorem clean_response_returned_witness:
  "always (Fulfilled \<lparr>resp_status = 200, resp_data = JObj [(''session_id'', JStr ''abc123'')]\<rparr>)
     (op_config no_env (StartGame (JStr ''Ava'') JNull))
     = Fulfilled \<lparr>resp_status = 200, resp_data = JObj [(''session_id'', JStr ''abc123'')]\<rparr> \<and>
   \<not> nullish (JObj [(''session_id'', JStr ''abc123'')]) \<and>
   \<not> has_field (JObj [(''session_id'', JStr ''abc123'')]) ''error'' \<and>
   fst (fst (invoke no_env
     (always (Fulfilled \<lparr>resp_status = 200,
                         resp_data = JObj [(''session_id'', JStr ''abc123'')]\<rparr>))
     (StartGame (JStr ''Ava'') JNull) (initial_state, empty_world)))
     = \<lparr>loading = False, error = JStr []\<rparr> \<and>
   snd (invoke no_env
     (always (Fulfilled \<lparr>resp_status = 200,
                         resp_data = JObj [(''session_id'', JStr ''abc123'')]\<rparr>))
     (StartGame (JStr ''Ava'') JNull) (initial_state, empty_world))
     = Returned (JObj [(''session_id'', JStr ''abc123'')])"
  using clean_response_returned
    [of "always (Fulfilled \<lparr>resp_status = 200,
                             resp_data = JObj [(''session_id'', JStr ''abc123'')]\<rparr>)"
        no_env "StartGame (JStr ''Ava'') JNull"
        "\<lparr>resp_status = 200, resp_data = JObj [(''session_id'', JStr ''abc123'')]\<rparr>"
        initial_state empty_world]
  by (simp add: always_def initial_state_def nullish_def)

text \<open>
  C5. When the awaited call of an operation raises a failure, the binding reads the
  failure's message, stores it as the error, or the generic string when the message is
  missing or empty, and returns \<^verbatim>\<open>null\<close>; it does not throw.
\<close>

theorem failure_message_captured:
  assumes "gameAPI ev tr opn w = (w', Threw failure)"
  shows "\<exists>m. get_prop failure ''message'' = Returned m \<and>
             invoke ev tr opn (st, w) =
               ((st\<lparr>loading := False,
                    error := (if truthy m then m else JStr ''An unexpected error occurred'')\<rparr>,
                 w'), Returned JNull)"
proof -
  obtain m where m: "get_prop failure ''message'' = Returned m"
    using gameAPI_thrown_object [OF assms] by blast
  have "apiCall (gameAPI ev tr opn) (st, w) =
          ((st\<lparr>loading := False,
               error := (if truthy m then m else JStr ''An unexpected error occurred'')\<rparr>, w'),
           Returned JNull)"
    by (rule apiCall_failure [where call = "gameAPI ev tr opn" and w = w, OF assms m])
  with m show ?thesis by (simp add: invoke_apiCall)
qed

text \<open>
  Two rejections that pass the response interceptor unchanged: one without a message,
  which gives the generic string, and a network error, whose message is kept.
\<close>

theorem failure_message_captured_witness:
  "gameAPI no_env
     (always (Rejected \<lparr>err_message = None, err_code = None, err_response = None\<rparr>))
     HealthCheck empty_world
     = (\<lparr>console = [ConsoleError ''API Response Error:''
                       (PError \<lparr>err_message = None, err_code = None, err_response = None\<rparr>)],
         sent = [op_config no_env HealthCheck]\<rparr>,
        Threw (axios_error_value \<lparr>err_message = None, err_code = None, err_response = None\<rparr>)) \<and>
   invoke no_env
     (always (Rejected \<lparr>err_message = None, err_code = None, err_response = None\<rparr>))
     HealthCheck (initial_state, empty_world)
     = ((\<lparr>loading = False, error = JStr ''An unexpected error occurred''\<rparr>,
         \<lparr>console = [ConsoleError ''API Response Error:''
                       (PError \<lparr>err_message = None, err_code = None, err_response = None\<rparr>)],
          sent = [op_config no_env HealthCheck]\<rparr>),
        Returned JNull) \<and>
   error (fst (fst (invoke no_env
     (always (Rejected \<lparr>err_message = Some ''Network Error'', err_code = Some ''ERR_NETWORK'',
                        err_response = None\<rparr>))
     HealthCheck (initial_state, empty_world))))
     = JStr ''Network Error''"
  using failure_message_captured
    [of no_env "always (Rejected \<lparr>err_message = None, err_code = None, err_response = None\<rparr>)"
        HealthCheck empty_world
        "\<lparr>console = [ConsoleError ''API Response Error:''
                       (PError \<lparr>err_message = None, err_code = None, err_response = None\<rparr>)],
          sent = [op_config no_env HealthCheck]\<rparr>"
        "axios_error_value \<lparr>err_message = None, err_code = None, err_response = None\<rparr>"
        initial_state]
    failure_message_captured
    [of no_env "always (Rejected \<lparr>err_message = Some ''Network Error'',
                                   err_code = Some ''ERR_NETWORK'', err_response = None\<rparr>)"
        HealthCheck empty_world
        "\<lparr>console = [ConsoleError ''API Response Error:''
                       (PError \<lparr>err_message = Some ''Network Error'',
                                err_code = Some ''ERR_NETWORK'', err_response = None\<rparr>)],
          sent = [op_config no_env HealthCheck]\<rparr>"
        "axios_error_value \<lparr>err_message = Some ''Network Error'',
                             err_code = Some ''ERR_NETWORK'', err_response = None\<rparr>"
        initial_state]
  by (simp add: client_defs hook_defs)

text \<open>
  C9. For every operation, every argument list and every answer of the transport (a
  clean body, a body with an embedded error, a null body, or a rejection of any kind)
  the binding itself never throws: it settles normally and returns the response body
  or \<^verbatim>\<open>null\<close>. The \<^verbatim>\<open>catch\<close> block reads \<^verbatim>\<open>err.message\<close>, which is safe
  because what an operation of \<open>gameAPI\<close> throws is always an object.
\<close>

theorem invoke_settles_normally:
  "\<exists>sw' r. invoke ev tr opn (st, w) = (sw', Returned r) \<and>
            (r = JNull \<or> snd (gameAPI ev tr opn w) = Returned r)"
proof -
  have "\<forall>w' failure. gameAPI ev tr opn w = (w', Threw failure) \<longrightarrow> \<not> nullish failure"
    using gameAPI_thrown_object by (fastforce simp: nullish_def)
  then show ?thesis
    unfolding invoke_apiCall by (rule apiCall_returns)
qed



text \<open>
  C6, as stated: with the logging flag disabled, which is its default, nothing is
  written to the console. It fails when the transport rejects: the second handler of
  the response interceptor calls \<^verbatim>\<open>console.error\<close> without looking at the flag.
\<close>

theorem logging_disabled_counterexample:
  "VITE_ENABLE_LOGGING no_env = None \<and>
   \<not> logging_enabled no_env \<and>
   console empty_world = [] \<and>
   console (fst (gameAPI no_env (always (Rejected network_error)) HealthCheck empty_world))
     = [ConsoleError ''API Response Error:'' (PError network_error)]"
  by (simp add: client_defs)

text \<open>
  C6, amended: with the flag enabled, the outgoing request and then the incoming
  response, success or failure, are written to the console before the operation
  returns or raises. With the flag disabled, which it is when the variable is not set
  or is anything but \<^verbatim>\<open>'true'\<close>, nothing is written for the request or for a
  successful response; a failed response is still written, by \<^verbatim>\<open>console.error\<close>.
\<close>

theorem logging_gated_except_failures:
  "(logging_enabled ev \<and> tr (op_config ev opn) = Fulfilled resp \<longrightarrow>
      console (fst (gameAPI ev tr opn w))
        = console w @ [ConsoleLog ''API Request:'' (PConfig (op_config ev opn)),
                       ConsoleLog ''API Response:'' (PResponse resp)]) \<and>
   (logging_enabled ev \<and> tr (op_config ev opn) = Rejected err \<longrightarrow>
      console (fst (gameAPI ev tr opn w))
        = console w @ [ConsoleLog ''API Request:'' (PConfig (op_config ev opn)),
                       ConsoleError ''API Response Error:'' (PError err)]) \<and>
   (\<not> logging_enabled ev \<and> tr (op_config ev opn) = Fulfilled resp \<longrightarrow>
      console (fst (gameAPI ev tr opn w)) = console w) \<and>
   (\<not> logging_enabled ev \<and> tr (op_config ev opn) = Rejected err \<longrightarrow>
      console (fst (gameAPI ev tr opn w))
        = console w @ [ConsoleError ''API Response Error:'' (PError err)]) \<and>
   (logging_enabled ev \<longleftrightarrow> VITE_ENABLE_LOGGING ev = Some ''true'')"
  by (simp add: gameAPI_Fulfilled gameAPI_Rejected logging_enabled_def)

theorem logging_gated_except_failures_witness:
  "logging_enabled logging_env \<and>
   \<not> logging_enabled no_env \<and>
   always (Fulfilled \<lparr>resp_status = 200, resp_data = JObj [(''status'', JStr ''ok'')]\<rparr>)
     (op_config logging_env HealthCheck)
     = Fulfilled \<lparr>resp_status = 200, resp_data = JObj [(''status'', JStr ''ok'')]\<rparr> \<and>
   console (fst (gameAPI logging_env
       (always (Fulfilled \<lparr>resp_status = 200, resp_data = JObj [(''status'', JStr ''ok'')]\<rparr>))
       HealthCheck empty_world))
     = [ConsoleLog ''API Request:'' (PConfig (op_config logging_env HealthCheck)),
        ConsoleLog ''API Response:''
          (PResponse \<lparr>resp_status = 200, resp_data = JObj [(''status'', JStr ''ok'')]\<rparr>)] \<and>
   console (fst (gameAPI logging_env (always (Rejected network_error)) HealthCheck empty_world))
     = [ConsoleLog ''API Request:'' (PConfig (op_config logging_env HealthCheck)),
        ConsoleError ''API Response Error:'' (PError network_error)] \<and>
   console (fst (gameAPI no_env
       (always (Fulfilled \<lparr>resp_status = 200, resp_data = JObj [(''status'', JStr ''ok'')]\<rparr>))
       HealthCheck empty_world))
     = [] \<and>
   console (fst (gameAPI no_env (always (Rejected network_error)) HealthCheck empty_world))
     = [ConsoleError ''API Response Error:'' (PError network_error)]"
  using logging_gated_except_failures
      [of logging_env
          "always (Fulfilled \<lparr>resp_status = 200, resp_data = JObj [(''status'', JStr ''ok'')]\<rparr>)"
          HealthCheck
          "\<lparr>resp_status = 200, resp_data = JObj [(''status'', JStr ''ok'')]\<rparr>"
          empty_world network_error]
    logging_gated_except_failures
      [of logging_env "always (Rejected network_error)" HealthCheck
          "\<lparr>resp_status = 200, resp_data = JNull\<rparr>" empty_world network_error]
    logging_gated_except_failures
      [of no_env
          "always (Fulfilled \<lparr>resp_status = 200, resp_data = JObj [(''status'', JStr ''ok'')]\<rparr>)"
          HealthCheck
          "\<lparr>resp_status = 200, resp_data = JObj [(''status'', JStr ''ok'')]\<rparr>"
          empty_world network_error]
    logging_gated_except_failures
      [of no_env "always (Rejected network_error)" HealthCheck
          "\<lparr>resp_status = 200, resp_data = JNull\<rparr>" empty_world network_error]
  by (simp add: client_defs)

text \<open>
  C7. \<^verbatim>\<open>takeTurn\<close> hands exactly one request to the adapter: a POST to
  \<^verbatim>\<open>/take_turn\<close> whose body has the fields \<^verbatim>\<open>session_id\<close>, \<^verbatim>\<open>player_name\<close>,
  \<^verbatim>\<open>chosen_path_id\<close> and \<^verbatim>\<open>insurance\<close>, the last one \<^verbatim>\<open>false\<close> when the caller
  omits the argument. \<^verbatim>\<open>startGame\<close> hands over exactly one POST to \<^verbatim>\<open>/start_game\<close>
  with the fields \<^verbatim>\<open>player_name\<close> and \<^verbatim>\<open>seed\<close>, the seed \<^verbatim>\<open>null\<close> when omitted.
\<close>

theorem post_request_bodies:
  "sent (fst (gameAPI_takeTurn ev tr sessionId playerName pathId insurance w))
     = sent w @
       [\<lparr>req_method = POST, req_url = ''/take_turn'',
         req_data = Some (JObj [(''session_id'', sessionId),
                                (''player_name'', playerName),
                                (''chosen_path_id'', pathId),
                                (''insurance'',
                                 if insurance = JUndefined then JBool False else insurance)]),
         req_baseURL = API_BASE_URL ev, req_timeout = 10000,
         req_headers = [(''Content-Type'', ''application/json'')]\<rparr>] \<and>
   sent (fst (gameAPI_startGame ev tr playerName clientSeed w))
     = sent w @
       [\<lparr>req_method = POST, req_url = ''/start_game'',
         req_data = Some (JObj [(''player_name'', playerName),
                                (''seed'',
                                 if clientSeed = JUndefined then JNull else clientSeed)]),
         req_baseURL = API_BASE_URL ev, req_timeout = 10000,
         req_headers = [(''Content-Type'', ''application/json'')]\<rparr>]"
  using gameAPI_sent [of ev tr "TakeTurn sessionId playerName pathId insurance" w]
    gameAPI_sent [of ev tr "StartGame playerName clientSeed" w]
  by (simp add: api_config_def default_param_def)

end
